theory Spec2Isabelle
  imports Complex_Main "HOL-Library.Multiset"
begin

section \<open>Return metrics of cagrx: data model\<close>

text \<open>
  The theory embeds \<^verbatim>\<open>src/cagrx/return_metrics.py\<close>. Conventions of the embedding:
  \<^item> A timestamp is a calendar date at midnight, represented by its day number (an
    \<open>int\<close>, day 0 being 1970-01-01), so that \<^verbatim>\<open>(a - b).days\<close> is \<open>a - b\<close> and the
    order of timestamps is the order of \<open>int\<close>.
  \<^item> Floating-point numbers are handled at two levels. \<open>cagr\<close> and \<open>xirr\<close> are translated
    over an arbitrary arithmetic (\<open>cagr_fl\<close>, \<open>xirr_fl\<close>): every operation of the source
    is one operation of a record of operations, of which nothing is assumed, so that a
    property proved of them holds of IEEE binary64 with its rounding, its \<^verbatim>\<open>inf\<close> and
    \<^verbatim>\<open>nan\<close> and Python's exceptions as of any other arithmetic. The remaining functions,
    and the properties that compare two runs, are stated in exact real arithmetic
    (Python's \<^verbatim>\<open>**\<close> is \<open>powr\<close> there), which is one instance of those records.
    Exceptions that Python raises are values of type \<open>error\<close>.
  \<^item> A DataFrame is its list of column names and its rows in storage order, each row
    an index date and the cells of that row. The index is named \<^verbatim>\<open>date\<close>, as the data
    module of the package produces it.
  \<^item> Sorting by date is stable. The order that pandas gives to rows of equal date
    plays no role in the properties below.
  \<^item> The \<^verbatim>\<open>print(merged)\<close> of \<^verbatim>\<open>calculate_sip_returns\<close> is left out.
\<close>

type_synonym date = int

record 'f dataframe =
  columns :: "string list"
  rows :: "(date \<times> (string \<Rightarrow> 'f)) list"

type_synonym frame = "real dataframe"

text \<open>One constructor for each \<^verbatim>\<open>raise\<close> of the module and for each built-in
  exception that its expressions can raise.\<close>

datatype error =
    Invalid_data_for_CAGR
  | Column_not_found string
  | Length_mismatch
  | Too_few_cashflows
  | Derivative_too_small
  | Rate_out_of_bounds
  | Did_not_converge int
  | Amount_column_missing
  | Keys_not_sorted
  | Empty_sequence
  | KeyError string
  | IndexError
  | TypeError
  | ZeroDivisionError
  | OverflowError
  | Complex_power

text \<open>The failure kinds of the specification (its section 7), and the kind of every
  error: the module raises \<^verbatim>\<open>ValueError\<close> throughout and the kinds are told apart by
  the message.\<close>

datatype failure = InvalidInput | EmptyResult | ConvergenceFailure | OutOfBounds | Uncaught

fun failure_kind :: "error \<Rightarrow> failure" where
  "failure_kind Invalid_data_for_CAGR = InvalidInput"
| "failure_kind (Column_not_found c) = InvalidInput"
| "failure_kind Length_mismatch = InvalidInput"
| "failure_kind Too_few_cashflows = InvalidInput"
| "failure_kind Amount_column_missing = InvalidInput"
| "failure_kind Derivative_too_small = ConvergenceFailure"
| "failure_kind (Did_not_converge n) = ConvergenceFailure"
| "failure_kind Rate_out_of_bounds = OutOfBounds"
| "failure_kind Empty_sequence = EmptyResult"
| "failure_kind e = Uncaught"

subsection \<open>Rounding\<close>

text \<open>\<^verbatim>\<open>round(x, n)\<close>: to the nearest multiple of \<open>10\<^sup>-\<^sup>n\<close>, a tie going to the even one.\<close>

definition rint :: "real \<Rightarrow> int" where
  "rint x = (let f = \<lfloor>x\<rfloor>; d = x - of_int f
             in if d < 1/2 then f else if 1/2 < d then f + 1
                else if even f then f else f + 1)"

definition round_py :: "real \<Rightarrow> nat \<Rightarrow> real" where
  "round_py x n = of_int (rint (x * 10 ^ n)) / 10 ^ n"

subsection \<open>Arithmetic\<close>

text \<open>The operations that \<open>cagr\<close> applies to numbers: the cells are numpy scalars, whose
  operations return \<^verbatim>\<open>inf\<close> or \<^verbatim>\<open>nan\<close> instead of raising, and the two divisions of Python
  numbers (by 365, and by \<^verbatim>\<open>num_years\<close> after the guard) have a non-zero divisor. \<open>num\<close> is
  a Python \<^verbatim>\<open>int\<close> as a number. \<open>exact_arith\<close> is the arithmetic without rounding.\<close>

record 'f arith =
  num :: "int \<Rightarrow> 'f"
  fdiv :: "'f \<Rightarrow> 'f \<Rightarrow> 'f"
  fsub :: "'f \<Rightarrow> 'f \<Rightarrow> 'f"
  fpow :: "'f \<Rightarrow> 'f \<Rightarrow> 'f"
  fle :: "'f \<Rightarrow> 'f \<Rightarrow> bool"
  fround :: "'f \<Rightarrow> nat \<Rightarrow> 'f"

definition exact_arith :: "real arith" where
  "exact_arith = \<lparr>num = real_of_int, fdiv = (/), fsub = (-), fpow = (powr), fle = (\<le>),
                   fround = round_py\<rparr>"

text \<open>The operations that the solver of \<open>xirr\<close> applies to Python numbers: each may
  raise (\<^verbatim>\<open>ZeroDivisionError\<close>, \<^verbatim>\<open>OverflowError\<close> from \<^verbatim>\<open>**\<close>, \<^verbatim>\<open>TypeError\<close> from comparing a
  complex number). \<open>py_lit\<close> is a float literal, \<open>py_num\<close> an \<^verbatim>\<open>int\<close>. \<open>and_then\<close> passes
  a value on and an exception through.\<close>

record 'f py_arith =
  py_num :: "int \<Rightarrow> 'f"
  py_lit :: "real \<Rightarrow> 'f"
  py_neg :: "'f \<Rightarrow> error + 'f"
  py_add :: "'f \<Rightarrow> 'f \<Rightarrow> error + 'f"
  py_sub :: "'f \<Rightarrow> 'f \<Rightarrow> error + 'f"
  py_mul :: "'f \<Rightarrow> 'f \<Rightarrow> error + 'f"
  py_div :: "'f \<Rightarrow> 'f \<Rightarrow> error + 'f"
  py_pow :: "'f \<Rightarrow> 'f \<Rightarrow> error + 'f"
  py_abs :: "'f \<Rightarrow> error + 'f"
  py_lt :: "'f \<Rightarrow> 'f \<Rightarrow> error + bool"
  py_round :: "'f \<Rightarrow> nat \<Rightarrow> error + 'f"

definition and_then :: "error + 'a \<Rightarrow> ('a \<Rightarrow> error + 'b) \<Rightarrow> error + 'b" where
  "and_then x f = (case x of Inl e \<Rightarrow> Inl e | Inr v \<Rightarrow> f v)"

text \<open>The arithmetic without rounding, overflow or underflow: division by zero and
  a zero base under a negative power raise as in Python, a negative base under a
  non-integral power (a complex number in Python) ends the evaluation.\<close>

definition py_exact :: "real py_arith" where
  "py_exact =
     \<lparr>py_num = real_of_int, py_lit = (\<lambda>x. x),
      py_neg = (\<lambda>x. Inr (- x)),
      py_add = (\<lambda>x y. Inr (x + y)),
      py_sub = (\<lambda>x y. Inr (x - y)),
      py_mul = (\<lambda>x y. Inr (x * y)),
      py_div = (\<lambda>x y. if y = 0 then Inl ZeroDivisionError else Inr (x / y)),
      py_pow = (\<lambda>x y. if 0 < x then Inr (x powr y)
                        else if x = 0
                        then (if y < 0 then Inl ZeroDivisionError
                              else if y = 0 then Inr 1 else Inr 0)
                        else if y = of_int \<lfloor>y\<rfloor> then Inr (power_int x \<lfloor>y\<rfloor>)
                        else Inl Complex_power),
      py_abs = (\<lambda>x. Inr \<bar>x\<bar>),
      py_lt = (\<lambda>x y. Inr (x < y)),
      py_round = (\<lambda>x n. Inr (round_py x n))\<rparr>"

subsection \<open>Calendar\<close>

text \<open>Day number of a civil date and back (proleptic Gregorian calendar), used only
  where the source subtracts a \<^verbatim>\<open>pd.DateOffset(years=n)\<close>: the year is lowered by \<open>n\<close>
  and the day is clamped to the length of the month, as \<^verbatim>\<open>relativedelta\<close> does.\<close>

definition days_from_civil :: "int \<Rightarrow> int \<Rightarrow> int \<Rightarrow> date" where
  "days_from_civil y m d =
     (let y' = (if m \<le> 2 then y - 1 else y);
          era = y' div 400;
          yoe = y' - era * 400;
          doy = (153 * (if 2 < m then m - 3 else m + 9) + 2) div 5 + d - 1;
          doe = yoe * 365 + yoe div 4 - yoe div 100 + doy
      in era * 146097 + doe - 719468)"

definition civil_from_days :: "date \<Rightarrow> int \<times> int \<times> int" where
  "civil_from_days z =
     (let z' = z + 719468;
          era = z' div 146097;
          doe = z' - era * 146097;
          yoe = (doe - doe div 1460 + doe div 36524 - doe div 146096) div 365;
          doy = doe - (365 * yoe + yoe div 4 - yoe div 100);
          mp = (5 * doy + 2) div 153;
          d = doy - (153 * mp + 2) div 5 + 1;
          m = (if mp < 10 then mp + 3 else mp - 9)
      in (if m \<le> 2 then yoe + era * 400 + 1 else yoe + era * 400, m, d))"

definition is_leap :: "int \<Rightarrow> bool" where
  "is_leap y = (y mod 4 = 0 \<and> (y mod 100 \<noteq> 0 \<or> y mod 400 = 0))"

definition days_in_month :: "int \<Rightarrow> int \<Rightarrow> int" where
  "days_in_month y m =
     (if m = 2 then (if is_leap y then 29 else 28)
      else if m = 4 \<or> m = 6 \<or> m = 9 \<or> m = 11 then 30 else 31)"

definition minus_years :: "date \<Rightarrow> int \<Rightarrow> date" where
  "minus_years t n =
     (case civil_from_days t of
        (y, m, d) \<Rightarrow> days_from_civil (y - n) m (min d (days_in_month (y - n) m)))"

section \<open>cagr\<close>

text \<open>The function over an arbitrary arithmetic, operation by operation.\<close>

definition cagr_fl :: "'f arith \<Rightarrow> 'f dataframe \<Rightarrow> string \<Rightarrow> error + 'f" where
  "cagr_fl ar df column =
     (if column \<notin> set (columns df) then Inl (KeyError column)
      else if rows df = [] then Inl IndexError
      else
        let start_value = snd (hd (rows df)) column;
            end_value = snd (last (rows df)) column;
            num_years = fdiv ar (num ar (fst (last (rows df)) - fst (hd (rows df)))) (num ar 365)
        in if fle ar start_value (num ar 0) \<or> fle ar num_years (num ar 0)
           then Inl Invalid_data_for_CAGR
           else Inr (fround ar
                  (fsub ar (fpow ar (fdiv ar end_value start_value)
                                    (fdiv ar (num ar 1) num_years))
                           (num ar 1)) 3))"

text \<open>The function in exact arithmetic, which is \<open>cagr_fl exact_arith\<close> (lemma
  \<open>cagr_exact\<close>); \<open>calculate_trailing_cagr\<close> below is stated with it.\<close>

definition cagr :: "frame \<Rightarrow> string \<Rightarrow> error + real" where
  "cagr df column =
     (if column \<notin> set (columns df) then Inl (KeyError column)
      else if rows df = [] then Inl IndexError
      else
        let start_value = snd (hd (rows df)) column;
            end_value = snd (last (rows df)) column;
            num_years = real_of_int (fst (last (rows df)) - fst (hd (rows df))) / 365
        in if start_value \<le> 0 \<or> num_years \<le> 0 then Inl Invalid_data_for_CAGR
           else Inr (round_py ((end_value / start_value) powr (1 / num_years) - 1) 3))"


section \<open>calculate_trailing_cagr\<close>

text \<open>\<^verbatim>\<open>df.sort_index()\<close> (stable here; the frames of interest have unique dates) and the
  label slice \<^verbatim>\<open>df.loc[start_date:]\<close> of a frame whose index is sorted.\<close>

definition sort_index :: "frame \<Rightarrow> frame" where
  "sort_index df = df\<lparr>rows := sort_key fst (rows df)\<rparr>"

definition loc_from :: "frame \<Rightarrow> date \<Rightarrow> frame" where
  "loc_from df start_date = df\<lparr>rows := dropWhile (\<lambda>r. fst r < start_date) (rows df)\<rparr>"

text \<open>The keys of the result dictionary: \<^verbatim>\<open>'Max_CAGR'\<close> and \<^verbatim>\<open>f'{period}Y_CAGR'\<close>. A value is
  a rate or Python's \<^verbatim>\<open>None\<close>.\<close>

datatype label = Max_CAGR | Y_CAGR int

type_synonym metrics = "label \<rightharpoonup> real option"

fun trailing_loop :: "frame \<Rightarrow> string \<Rightarrow> int list \<Rightarrow> metrics \<Rightarrow> error + metrics" where
  "trailing_loop df column [] cagr_metrics = Inr cagr_metrics"
| "trailing_loop df column (period # periods) cagr_metrics =
     (if period = - 1 then
        (case cagr df column of
           Inl e \<Rightarrow> Inl e
         | Inr v \<Rightarrow> trailing_loop df column periods (cagr_metrics(Max_CAGR \<mapsto> Some v)))
      else if rows df = [] then Inl IndexError
      else
        let start_date = minus_years (fst (last (rows df))) period
        in if start_date < fst (hd (rows df))
           then trailing_loop df column periods (cagr_metrics(Y_CAGR period \<mapsto> None))
           else (case cagr (loc_from df start_date) column of
                   Inl e \<Rightarrow> Inl e
                 | Inr v \<Rightarrow>
                     trailing_loop df column periods (cagr_metrics(Y_CAGR period \<mapsto> Some v))))"

definition calculate_trailing_cagr :: "frame \<Rightarrow> string \<Rightarrow> int list option \<Rightarrow> error + metrics" where
  "calculate_trailing_cagr df column periods =
     (if column \<notin> set (columns df) then Inl (Column_not_found column)
      else case periods of
             None \<Rightarrow> Inl TypeError
           | Some ps \<Rightarrow> trailing_loop (sort_index df) column ps Map.empty)"

section \<open>merge_asof\<close>

text \<open>\<^verbatim>\<open>pd.merge_asof\<close> keeps every left row and attaches the value of the right row
  whose key is the last one at or before the left key (\<open>backward\<close>, the default) or the
  first one at or after it (\<open>forward\<close>); the cell is missing (\<open>None\<close>) where there is no
  such row. It raises \<^verbatim>\<open>ValueError\<close> unless both key columns are sorted.\<close>

datatype direction = backward | forward

definition asof :: "direction \<Rightarrow> (date \<times> real) list \<Rightarrow> date \<Rightarrow> real option" where
  "asof dir right k =
     (case dir of
        backward \<Rightarrow>
          (case filter (\<lambda>r. fst r \<le> k) right of [] \<Rightarrow> None | x # xs \<Rightarrow> Some (snd (last (x # xs))))
      | forward \<Rightarrow>
          (case find (\<lambda>r. k \<le> fst r) right of None \<Rightarrow> None | Some r \<Rightarrow> Some (snd r)))"

definition merge_asof ::
  "direction \<Rightarrow> (date \<times> 'a) list \<Rightarrow> (date \<times> real) list \<Rightarrow> error + (date \<times> 'a \<times> real option) list"
where
  "merge_asof dir left right =
     (if \<not> sorted (map fst left) then Inl Keys_not_sorted
      else if \<not> sorted (map fst right) then Inl Keys_not_sorted
      else Inr (map (\<lambda>(k, a). (k, a, asof dir right k)) left))"

section \<open>calculate_rolling_returns\<close>

record rolling_row =
  row_date :: date
  nav_current :: real
  past_date :: date
  returns :: real

record rolling_metrics =
  max_returns :: real
  max_return_period :: "date \<times> date"
  min_returns :: real
  min_return_period :: "date \<times> date"
  avg_return :: real

text \<open>\<^verbatim>\<open>Series.idxmax\<close> and \<^verbatim>\<open>Series.idxmin\<close>: the index label of the first row holding
  the extreme value; on an empty series they raise \<^verbatim>\<open>ValueError\<close>.\<close>

definition idxmax :: "rolling_row list \<Rightarrow> error + date" where
  "idxmax rs =
     (if rs = [] then Inl Empty_sequence
      else Inr (row_date (hd (filter (\<lambda>r. returns r = Max (set (map returns rs))) rs))))"

definition idxmin :: "rolling_row list \<Rightarrow> error + date" where
  "idxmin rs =
     (if rs = [] then Inl Empty_sequence
      else Inr (row_date (hd (filter (\<lambda>r. returns r = Min (set (map returns rs))) rs))))"

text \<open>\<^verbatim>\<open>rolling_df.loc[label]\<close> is one row when the label is unique; with a repeated
  label it is a frame, and \<^verbatim>\<open>float(...)\<close> of its column raises \<^verbatim>\<open>TypeError\<close>.\<close>

definition loc_row :: "rolling_row list \<Rightarrow> date \<Rightarrow> error + rolling_row" where
  "loc_row rs l =
     (case filter (\<lambda>r. row_date r = l) rs of
        [r] \<Rightarrow> Inr r
      | _ \<Rightarrow> Inl TypeError)"

text \<open>The rows that survive \<^verbatim>\<open>dropna(subset=['nav_past'])\<close>, with their returns.\<close>

definition rolling_rows :: "(date \<times> (date \<times> real) \<times> real option) list \<Rightarrow> rolling_row list" where
  "rolling_rows merged =
     concat (map (\<lambda>(p, (d, cur), past).
       case past of
         None \<Rightarrow> []
       | Some v \<Rightarrow> [\<lparr>row_date = d, nav_current = cur, past_date = p,
                      returns = round_py ((cur - v) / v) 3\<rparr>]) merged)"

text \<open>The period is a \<^verbatim>\<open>pd.DateOffset\<close>; it enters only through \<^verbatim>\<open>dates_in_df - period\<close>
  and is represented by that subtraction, \<open>minus_period\<close>. The right frame of the merge
  is \<^verbatim>\<open>df[['nav']]\<close> taken from the one-column copy, so any other column name is a
  \<^verbatim>\<open>KeyError\<close>; its key \<^verbatim>\<open>date\<close> is the index, which the data module names so.\<close>

definition calculate_rolling_returns ::
  "frame \<Rightarrow> string \<Rightarrow> (date \<Rightarrow> date) \<Rightarrow> error + rolling_metrics"
where
  "calculate_rolling_returns df column minus_period =
     (if column \<notin> set (columns df) then Inl (KeyError column)
      else if column \<noteq> ''nav'' then Inl (KeyError ''nav'')
      else
        case merge_asof backward
               (map (\<lambda>r. (minus_period (fst r), (fst r, snd r column))) (rows df))
               (map (\<lambda>r. (fst r, snd r ''nav'')) (rows df)) of
          Inl e \<Rightarrow> Inl e
        | Inr merged \<Rightarrow>
            let rolling_df = rolling_rows merged
            in case idxmax rolling_df of
                 Inl e \<Rightarrow> Inl e
               | Inr lmax \<Rightarrow>
                   (case loc_row rolling_df lmax of
                      Inl e \<Rightarrow> Inl e
                    | Inr max_row \<Rightarrow>
                        (case idxmin rolling_df of
                           Inl e \<Rightarrow> Inl e
                         | Inr lmin \<Rightarrow>
                             (case loc_row rolling_df lmin of
                                Inl e \<Rightarrow> Inl e
                              | Inr min_row \<Rightarrow>
                                  Inr \<lparr>max_returns = returns max_row,
                                       max_return_period = (past_date max_row, row_date max_row),
                                       min_returns = returns min_row,
                                       min_return_period = (past_date min_row, row_date min_row),
                                       avg_return =
                                         round_py (sum_list (map returns rolling_df)
                                                   / real (length rolling_df)) 3\<rparr>))))"

section \<open>xirr\<close>

text \<open>\<^verbatim>\<open>dates.argsort()\<close>: the positions of the dates in ascending order of date.\<close>

definition argsort :: "date list \<Rightarrow> nat list" where
  "argsort dates = sort_key (\<lambda>i. dates ! i) [0..<length dates]"

text \<open>The solver over an arbitrary arithmetic. A term of each sum evaluates its
  operands from left to right; \<^verbatim>\<open>sum\<close> starts from the \<^verbatim>\<open>int\<close> 0.\<close>

definition npv_term :: "'f py_arith \<Rightarrow> 'f \<Rightarrow> 'f \<times> int \<Rightarrow> error + 'f" where
  "npv_term ar rate flow =
     (case flow of (cf, day) \<Rightarrow>
        and_then (py_add ar (py_num ar 1) rate) (\<lambda>base.
        and_then (py_div ar (py_num ar day) (py_lit ar 365)) (\<lambda>t.
        and_then (py_pow ar base t) (\<lambda>p.
        py_div ar cf p))))"

definition dnpv_term :: "'f py_arith \<Rightarrow> 'f \<Rightarrow> 'f \<times> int \<Rightarrow> error + 'f" where
  "dnpv_term ar rate flow =
     (case flow of (cf, day) \<Rightarrow>
        and_then (py_neg ar cf) (\<lambda>m.
        and_then (py_mul ar m (py_num ar day)) (\<lambda>md.
        and_then (py_div ar md (py_lit ar 365)) (\<lambda>q.
        and_then (py_add ar (py_num ar 1) rate) (\<lambda>base.
        and_then (py_div ar (py_num ar day) (py_lit ar 365)) (\<lambda>t.
        and_then (py_add ar t (py_num ar 1)) (\<lambda>t1.
        and_then (py_pow ar base t1) (\<lambda>p.
        py_div ar q p))))))))"

fun py_sum :: "'f py_arith \<Rightarrow> ('a \<Rightarrow> error + 'f) \<Rightarrow> 'f \<Rightarrow> 'a list \<Rightarrow> error + 'f" where
  "py_sum ar f acc [] = Inr acc"
| "py_sum ar f acc (x # xs) =
     and_then (f x) (\<lambda>t. and_then (py_add ar acc t) (\<lambda>acc'. py_sum ar f acc' xs))"

definition npv_fl :: "'f py_arith \<Rightarrow> ('f \<times> int) list \<Rightarrow> 'f \<Rightarrow> error + 'f" where
  "npv_fl ar flows rate = py_sum ar (npv_term ar rate) (py_num ar 0) flows"

definition dnpv_fl :: "'f py_arith \<Rightarrow> ('f \<times> int) list \<Rightarrow> 'f \<Rightarrow> error + 'f" where
  "dnpv_fl ar flows rate = py_sum ar (dnpv_term ar rate) (py_num ar 0) flows"

text \<open>The three tests of an iteration: \<^verbatim>\<open>abs(x) < bound\<close>, the update
  \<^verbatim>\<open>rate - npv / dnpv\<close>, and \<^verbatim>\<open>rate < -0.99 or rate > 10\<close>.\<close>

definition magnitude_lt :: "'f py_arith \<Rightarrow> 'f \<Rightarrow> 'f \<Rightarrow> error + bool" where
  "magnitude_lt ar x bound = and_then (py_abs ar x) (\<lambda>a. py_lt ar a bound)"

definition newton_update :: "'f py_arith \<Rightarrow> 'f \<Rightarrow> 'f \<Rightarrow> 'f \<Rightarrow> error + 'f" where
  "newton_update ar rate pv dv = and_then (py_div ar pv dv) (\<lambda>q. py_sub ar rate q)"

definition outside_bounds :: "'f py_arith \<Rightarrow> 'f \<Rightarrow> error + bool" where
  "outside_bounds ar rate =
     (case py_lt ar rate (py_lit ar (- 0.99)) of
        Inl e \<Rightarrow> Inl e
      | Inr True \<Rightarrow> Inr True
      | Inr False \<Rightarrow> py_lt ar (py_num ar 10) rate)"

text \<open>The body of the loop, with the way it leaves: by \<^verbatim>\<open>return\<close>, by one of the two
  \<^verbatim>\<open>raise\<close> statements, by an exception of the arithmetic, or on to the next iteration
  with the updated rate.\<close>

datatype 'f step = Converged 'f | Flat_derivative | Left_bounds | Raised error | Continue 'f

definition iteration :: "'f py_arith \<Rightarrow> ('f \<times> int) list \<Rightarrow> 'f \<Rightarrow> 'f \<Rightarrow> 'f step" where
  "iteration ar flows tolerance rate =
     (case npv_fl ar flows rate of Inl e \<Rightarrow> Raised e | Inr pv \<Rightarrow>
      case dnpv_fl ar flows rate of Inl e \<Rightarrow> Raised e | Inr dv \<Rightarrow>
      case magnitude_lt ar pv tolerance of
        Inl e \<Rightarrow> Raised e
      | Inr True \<Rightarrow>
          (case py_round ar rate 6 of Inl e \<Rightarrow> Raised e | Inr r \<Rightarrow> Converged r)
      | Inr False \<Rightarrow>
      case magnitude_lt ar dv (py_lit ar (1 / 10 ^ 10)) of
        Inl e \<Rightarrow> Raised e
      | Inr True \<Rightarrow> Flat_derivative
      | Inr False \<Rightarrow>
      case newton_update ar rate pv dv of
        Inl e \<Rightarrow> Raised e
      | Inr rate' \<Rightarrow>
      case outside_bounds ar rate' of
        Inl e \<Rightarrow> Raised e
      | Inr True \<Rightarrow> Left_bounds
      | Inr False \<Rightarrow> Continue rate')"

text \<open>The loop \<^verbatim>\<open>for iteration in range(max_iterations)\<close>, the fifth argument counting the
  iterations that remain, and the function.\<close>

fun newton_fl ::
  "'f py_arith \<Rightarrow> ('f \<times> int) list \<Rightarrow> 'f \<Rightarrow> int \<Rightarrow> nat \<Rightarrow> 'f \<Rightarrow> error + 'f"
where
  "newton_fl ar flows tolerance max_iterations 0 rate = Inl (Did_not_converge max_iterations)"
| "newton_fl ar flows tolerance max_iterations (Suc n) rate =
     (case iteration ar flows tolerance rate of
        Converged r \<Rightarrow> Inr r
      | Flat_derivative \<Rightarrow> Inl Derivative_too_small
      | Left_bounds \<Rightarrow> Inl Rate_out_of_bounds
      | Raised e \<Rightarrow> Inl e
      | Continue rate' \<Rightarrow> newton_fl ar flows tolerance max_iterations n rate')"

definition flows_of :: "'f list \<Rightarrow> date list \<Rightarrow> ('f \<times> int) list" where
  "flows_of cashflows dates =
     (let sorted_indices = argsort dates;
          cashflows' = map (\<lambda>i. cashflows ! i) sorted_indices;
          dates' = map (\<lambda>i. dates ! i) sorted_indices;
          start_date = hd dates';
          days = map (\<lambda>date. date - start_date) dates'
      in zip cashflows' days)"

definition xirr_fl ::
  "'f py_arith \<Rightarrow> 'f list \<Rightarrow> date list \<Rightarrow> 'f \<Rightarrow> int \<Rightarrow> 'f \<Rightarrow> error + 'f"
where
  "xirr_fl ar cashflows dates guess max_iterations tolerance =
     (if length cashflows \<noteq> length dates then Inl Length_mismatch
      else if length cashflows < 2 then Inl Too_few_cashflows
      else newton_fl ar (flows_of cashflows dates) tolerance max_iterations
             (nat max_iterations) guess)"

text \<open>The solver in exact arithmetic, which the properties comparing two runs are
  stated with. The two sums of an iteration, over \<^verbatim>\<open>zip(cashflows, days)\<close>:\<close>

definition npv :: "(real \<times> int) list \<Rightarrow> real \<Rightarrow> real" where
  "npv flows rate = (\<Sum>(cf, day)\<leftarrow>flows. cf / (1 + rate) powr (real_of_int day / 365))"

definition dnpv :: "(real \<times> int) list \<Rightarrow> real \<Rightarrow> real" where
  "dnpv flows rate =
     (\<Sum>(cf, day)\<leftarrow>flows. - cf * real_of_int day / 365 / (1 + rate) powr (real_of_int day / 365 + 1))"

text \<open>The loop, the fourth argument counting the iterations that remain. From every
  guess above \<open>-1\<close> it is \<open>newton_fl py_exact\<close> (lemma \<open>newton_exact\<close>). With
  \<open>1 + rate = 0\<close> the divisor \<^verbatim>\<open>(1 + rate) ** (day / 365.0 + 1)\<close> of the derivative is zero
  and the iteration ends in \<^verbatim>\<open>ZeroDivisionError\<close>; with \<open>1 + rate < 0\<close> Python's power is a
  complex number (unless the exponent happens to be integral), and a run is not
  followed beyond such a rate here: it ends in \<open>Complex_power\<close>. Both can only happen at
  the initial guess, every later rate being at least \<open>-0.99\<close>.\<close>

fun newton :: "(real \<times> int) list \<Rightarrow> real \<Rightarrow> int \<Rightarrow> nat \<Rightarrow> real \<Rightarrow> error + real" where
  "newton flows tolerance max_iterations 0 rate = Inl (Did_not_converge max_iterations)"
| "newton flows tolerance max_iterations (Suc n) rate =
     (if flows \<noteq> [] \<and> 1 + rate = 0 then Inl ZeroDivisionError
      else if flows \<noteq> [] \<and> 1 + rate < 0 then Inl Complex_power
      else if \<bar>npv flows rate\<bar> < tolerance then Inr (round_py rate 6)
      else if \<bar>dnpv flows rate\<bar> < 1 / 10 ^ 10 then Inl Derivative_too_small
      else
        let rate' = rate - npv flows rate / dnpv flows rate
        in if rate' < - 0.99 \<or> rate' > 10 then Inl Rate_out_of_bounds
           else newton flows tolerance max_iterations n rate')"

definition xirr :: "real list \<Rightarrow> date list \<Rightarrow> real \<Rightarrow> int \<Rightarrow> real \<Rightarrow> error + real" where
  "xirr cashflows dates guess max_iterations tolerance =
     (if length cashflows \<noteq> length dates then Inl Length_mismatch
      else if length cashflows < 2 then Inl Too_few_cashflows
      else
        let sorted_indices = argsort dates;
            cashflows' = map (\<lambda>i. cashflows ! i) sorted_indices;
            dates' = map (\<lambda>i. dates ! i) sorted_indices;
            start_date = hd dates';
            days = map (\<lambda>date. date - start_date) dates'
        in newton (zip cashflows' days) tolerance max_iterations (nat max_iterations) guess)"

section \<open>calculate_sip_returns\<close>

record sip_returns =
  total_invested :: real
  current_value :: real
  absolute_returns :: real
  return_percentage :: real
  annualized_return :: real
  total_units :: real
  current_nav :: real
  investment_period_days :: int

text \<open>The quantities of the body, before the final rounding, as functions of the two
  sorted frames. A missing cell of \<open>merged\<close> gives a missing cell of \<^verbatim>\<open>merged['units']\<close>,
  which \<^verbatim>\<open>sum()\<close> skips.\<close>

definition sip_merged :: "frame \<Rightarrow> frame \<Rightarrow> string \<Rightarrow> error + (date \<times> real \<times> real option) list" where
  "sip_merged sip_cashflows nav_df column =
     merge_asof forward
       (map (\<lambda>r. (fst r, snd r ''amount'')) (rows (sort_index sip_cashflows)))
       (map (\<lambda>r. (fst r, snd r column)) (rows (sort_index nav_df)))"

definition sum_amount :: "(date \<times> real \<times> real option) list \<Rightarrow> real" where
  "sum_amount merged = (\<Sum>(d, amount, nav)\<leftarrow>merged. amount)"

definition sum_units :: "(date \<times> real \<times> real option) list \<Rightarrow> real" where
  "sum_units merged =
     (\<Sum>(d, amount, nav)\<leftarrow>merged. case nav of None \<Rightarrow> 0 | Some v \<Rightarrow> amount / v)"

definition calculate_sip_returns :: "frame \<Rightarrow> frame \<Rightarrow> string \<Rightarrow> error + sip_returns" where
  "calculate_sip_returns sip_cashflows nav_df column =
     (if ''amount'' \<notin> set (columns sip_cashflows) then Inl Amount_column_missing
      else if column \<notin> set (columns nav_df) then Inl (Column_not_found column)
      else
        case sip_merged sip_cashflows nav_df column of
          Inl e \<Rightarrow> Inl e
        | Inr merged \<Rightarrow>
            if column \<in> set (columns sip_cashflows) then Inl (KeyError column)
            else if rows nav_df = [] then Inl IndexError
            else
              let sip = rows (sort_index sip_cashflows);
                  nav = rows (sort_index nav_df);
                  total_invested = sum_amount merged;
                  total_units = sum_units merged;
                  current_nav = snd (last nav) column;
                  current_value = total_units * current_nav;
                  absolute_returns = current_value - total_invested;
                  return_percentage =
                    (if total_invested > 0 then absolute_returns / total_invested * 100 else 0);
                  annualized_return =
                    (if length sip > 1 then
                       let days = fst (last nav) - fst (hd sip);
                           years = real_of_int days / 365.25
                       in if years > 0 \<and> total_invested > 0
                          then ((current_value / total_invested) powr (1 / years) - 1) * 100
                          else 0
                     else 0)
              in Inr \<lparr>total_invested = round_py total_invested 2,
                      current_value = round_py current_value 2,
                      absolute_returns = round_py absolute_returns 2,
                      return_percentage = round_py return_percentage 2,
                      annualized_return = round_py annualized_return 2,
                      total_units = round_py total_units 4,
                      current_nav = round_py current_nav 2,
                      investment_period_days =
                        (if length sip > 0 then fst (last nav) - fst (hd sip) else 0)\<rparr>)"


section \<open>Notions of the specification and sample inputs\<close>

text \<open>The quantities that the specification of the growth rate names: the first and
  last value of the series as it is given, the elapsed years under the fixed 365-day
  count, and the rate, each computed in the arithmetic at hand.\<close>

definition first_value :: "'f dataframe \<Rightarrow> string \<Rightarrow> 'f" where
  "first_value df column = snd (hd (rows df)) column"

definition last_value :: "'f dataframe \<Rightarrow> string \<Rightarrow> 'f" where
  "last_value df column = snd (last (rows df)) column"

definition years_between :: "'f arith \<Rightarrow> 'f dataframe \<Rightarrow> 'f" where
  "years_between ar df =
     fdiv ar (num ar (fst (last (rows df)) - fst (hd (rows df)))) (num ar 365)"

definition growth_rate :: "'f arith \<Rightarrow> 'f \<Rightarrow> 'f \<Rightarrow> 'f \<Rightarrow> 'f" where
  "growth_rate ar start_v end_v years =
     fround ar (fsub ar (fpow ar (fdiv ar end_v start_v) (fdiv ar (num ar 1) years)) (num ar 1)) 3"

text \<open>A frame with the single column \<^verbatim>\<open>nav\<close>, and one with the single column \<^verbatim>\<open>amount\<close>.\<close>

definition nav_frame :: "(date \<times> real) list \<Rightarrow> frame" where
  "nav_frame xs = \<lparr>columns = [''nav''], rows = map (\<lambda>(d, v). (d, \<lambda>c. v)) xs\<rparr>"

definition amount_frame :: "(date \<times> real) list \<Rightarrow> frame" where
  "amount_frame xs = \<lparr>columns = [''amount''], rows = map (\<lambda>(d, v). (d, \<lambda>c. v)) xs\<rparr>"

text \<open>A NAV of 100 on 2020-01-01 and of 121 on 2020-12-31, 365 days later.\<close>

definition nav_2020 :: frame where
  "nav_2020 = nav_frame [(days_from_civil 2020 1 1, 100), (days_from_civil 2020 12 31, 121)]"



text \<open>The flows of the solver in exact arithmetic.\<close>

definition sorted_flows :: "real list \<Rightarrow> date list \<Rightarrow> (real \<times> int) list" where
  "sorted_flows cashflows dates =
     (let sorted_indices = argsort dates;
          start_date = hd (map (\<lambda>i. dates ! i) sorted_indices)
      in zip (map (\<lambda>i. cashflows ! i) sorted_indices)
             (map (\<lambda>date. date - start_date) (map (\<lambda>i. dates ! i) sorted_indices)))"

text \<open>110 received 365 days after 100 was paid: a rate of exactly 10 percent. The
  same two flows on one day.\<close>

definition one_year_dates :: "date list" where
  "one_year_dates = [days_from_civil 2021 1 1, days_from_civil 2022 1 1]"

definition same_day_dates :: "date list" where
  "same_day_dates = [days_from_civil 2021 1 1, days_from_civil 2021 1 1]"

text \<open>The key under which a window is reported, and the first and last date of a
  series in calendar order.\<close>

definition period_key :: "int \<Rightarrow> label" where
  "period_key period = (if period = - 1 then Max_CAGR else Y_CAGR period)"

definition first_date :: "frame \<Rightarrow> date" where
  "first_date df = Min (set (map fst (rows df)))"

definition last_date :: "frame \<Rightarrow> date" where
  "last_date df = Max (set (map fst (rows df)))"

text \<open>Three yearly points; two points two years apart; a single point; the two points
  of \<open>nav_2020\<close> in descending order of date.\<close>

definition nav_three :: frame where
  "nav_three = nav_frame [(days_from_civil 2020 1 1, 100), (days_from_civil 2021 1 1, 110),
                          (days_from_civil 2022 1 1, 100)]"

definition nav_sparse :: frame where
  "nav_sparse = nav_frame [(days_from_civil 2020 1 1, 100), (days_from_civil 2022 1 1, 121)]"

definition nav_single :: frame where
  "nav_single = nav_frame [(days_from_civil 2020 1 1, 100)]"

definition nav_unsorted :: frame where
  "nav_unsorted = nav_frame [(days_from_civil 2020 12 31, 121), (days_from_civil 2020 1 1, 100)]"

text \<open>Three yearly points with growing value.\<close>

definition nav_rolling :: frame where
  "nav_rolling = nav_frame [(days_from_civil 2020 1 1, 100), (days_from_civil 2021 1 1, 110),
                            (days_from_civil 2022 1 1, 132)]"

text \<open>The contribution plan as the specification sees it: the contributions, whether
  a contribution date has a NAV point at or after it, the NAV it is then matched to
  (that of the earliest such point), the amounts and the units bought, and the three
  quantities of the annualized return (elapsed years under the 365.25-day count, from
  the earliest contribution date to the latest NAV date).\<close>

definition contributions :: "frame \<Rightarrow> (date \<times> real) list" where
  "contributions sip_cashflows = map (\<lambda>r. (fst r, snd r ''amount'')) (rows sip_cashflows)"

definition matched :: "frame \<Rightarrow> date \<Rightarrow> bool" where
  "matched nav_df d = list_ex (\<lambda>r. d \<le> fst r) (rows nav_df)"

definition forward_nav :: "frame \<Rightarrow> string \<Rightarrow> date \<Rightarrow> real" where
  "forward_nav nav_df column d =
     snd (hd (filter (\<lambda>r. d \<le> fst r) (rows (sort_index nav_df)))) column"

definition all_amounts :: "frame \<Rightarrow> real list" where
  "all_amounts sip_cashflows = map snd (contributions sip_cashflows)"

definition matched_amounts :: "frame \<Rightarrow> frame \<Rightarrow> real list" where
  "matched_amounts sip_cashflows nav_df =
     map snd (filter (\<lambda>c. matched nav_df (fst c)) (contributions sip_cashflows))"

definition matched_units :: "frame \<Rightarrow> frame \<Rightarrow> string \<Rightarrow> real list" where
  "matched_units sip_cashflows nav_df column =
     map (\<lambda>c. snd c / forward_nav nav_df column (fst c))
       (filter (\<lambda>c. matched nav_df (fst c)) (contributions sip_cashflows))"

definition sip_invested :: "frame \<Rightarrow> real" where
  "sip_invested sip_cashflows = sum_list (all_amounts sip_cashflows)"

definition sip_value :: "frame \<Rightarrow> frame \<Rightarrow> string \<Rightarrow> real" where
  "sip_value sip_cashflows nav_df column =
     sum_list (matched_units sip_cashflows nav_df column)
       * snd (last (rows (sort_index nav_df))) column"

definition sip_years :: "frame \<Rightarrow> frame \<Rightarrow> real" where
  "sip_years sip_cashflows nav_df =
     real_of_int (last_date nav_df - first_date sip_cashflows) / 365.25"

text \<open>Sample plans: the three monthly contributions of the docstring; a plan whose
  second contribution falls after the last NAV point; two plans of one contribution.\<close>

definition sip_monthly :: frame where
  "sip_monthly = amount_frame [(days_from_civil 2024 1 1, 5000), (days_from_civil 2024 2 1, 5000),
                               (days_from_civil 2024 3 1, 5000)]"

definition nav_monthly :: frame where
  "nav_monthly = nav_frame [(days_from_civil 2024 1 1, 100), (days_from_civil 2024 2 1, 105),
                            (days_from_civil 2024 3 1, 110), (days_from_civil 2024 4 1, 115)]"

definition sip_two :: frame where
  "sip_two = amount_frame [(days_from_civil 2024 1 1, 1000), (days_from_civil 2024 3 1, 500)]"

definition nav_jan_feb :: frame where
  "nav_jan_feb = nav_frame [(days_from_civil 2024 1 1, 100), (days_from_civil 2024 2 1, 110)]"

definition sip_one :: frame where
  "sip_one = amount_frame [(days_from_civil 2024 1 1, 1000)]"

definition nav_year :: frame where
  "nav_year = nav_frame [(days_from_civil 2024 1 1, 100), (days_from_civil 2025 1 1, 110)]"

definition sip_single :: frame where
  "sip_single = amount_frame [(days_from_civil 2023 6 15, 5000)]"

definition nav_2023 :: frame where
  "nav_2023 = nav_frame [(days_from_civil 2023 6 15, 50), (days_from_civil 2024 6 14, 60)]"

section \<open>Verified properties\<close>

subsection \<open>cagr\<close>

text \<open>
  Claim C1. In every arithmetic and for every non-empty NAV series holding the requested
  column, \<open>cagr\<close> takes the elapsed years to be the days from the first to the last index
  date divided by 365; it fails with \<open>InvalidInput\<close> exactly when the first value or the
  elapsed years compare \<open>\<le> 0\<close>, and otherwise it returns
  \<open>(end_value / start_value) ** (1 / years) - 1\<close> rounded to 3 decimal places, every
  operation being that of the arithmetic. The series need not be sorted for this to hold.
\<close>

theorem cagr_spec:
  assumes "column \<in> set (columns df)" and "rows df \<noteq> []"
  shows "((\<exists>e. cagr_fl ar df column = Inl e \<and> failure_kind e = InvalidInput)
            \<longleftrightarrow> fle ar (first_value df column) (num ar 0)
                 \<or> fle ar (years_between ar df) (num ar 0))
       \<and> (\<not> (fle ar (first_value df column) (num ar 0)
               \<or> fle ar (years_between ar df) (num ar 0)) \<longrightarrow>
            cagr_fl ar df column =
              Inr (growth_rate ar (first_value df column) (last_value df column)
                     (years_between ar df)))"
  using assms
  by (auto simp: cagr_fl_def Let_def first_value_def last_value_def years_between_def
      growth_rate_def)

theorem cagr_spec_witness:
  "''nav'' \<in> set (columns nav_2020) \<and> rows nav_2020 \<noteq> []
   \<and> \<not> fle exact_arith (first_value nav_2020 ''nav'') (num exact_arith 0)
   \<and> \<not> fle exact_arith (years_between exact_arith nav_2020) (num exact_arith 0)
   \<and> cagr_fl exact_arith nav_2020 ''nav'' = Inr 0.21"
proof -
  have c: "''nav'' \<in> set (columns nav_2020)" and r: "rows nav_2020 \<noteq> []"
    by (simp_all add: nav_2020_def nav_frame_def)
  have ok: "\<not> fle exact_arith (first_value nav_2020 ''nav'') (num exact_arith 0)"
    "\<not> fle exact_arith (years_between exact_arith nav_2020) (num exact_arith 0)"
    by (simp_all add: nav_2020_def nav_frame_def first_value_def years_between_def
        exact_arith_def days_from_civil_def)
  have "cagr_fl exact_arith nav_2020 ''nav'' =
          Inr (growth_rate exact_arith (first_value nav_2020 ''nav'')
                 (last_value nav_2020 ''nav'') (years_between exact_arith nav_2020))"
    using cagr_spec [OF c r, of exact_arith] ok by auto
  also have "\<dots> = Inr 0.21"
    by (simp add: nav_2020_def nav_frame_def first_value_def last_value_def years_between_def
        growth_rate_def exact_arith_def days_from_civil_def round_py_def rint_def)
  finally show ?thesis using c r ok by blast
qed

text \<open>The function in exact arithmetic is the instance of \<open>cagr_fl\<close> at \<open>exact_arith\<close>.\<close>

lemma cagr_exact: "cagr_fl exact_arith df column = cagr df column"
  by (simp add: cagr_fl_def cagr_def exact_arith_def Let_def)

subsection \<open>xirr\<close>

lemma xirr_newton:
  "length cashflows = length dates \<Longrightarrow> 2 \<le> length cashflows \<Longrightarrow>
   xirr cashflows dates guess max_iterations tolerance =
     newton (sorted_flows cashflows dates) tolerance max_iterations (nat max_iterations) guess"
  by (simp add: xirr_def sorted_flows_def Let_def)

lemma newton_not_invalid:
  "newton flows tolerance m n rate = Inl e \<Longrightarrow> failure_kind e \<noteq> InvalidInput"
  by (induction n arbitrary: rate) (auto simp: Let_def split: if_splits)











text \<open>Samples in exact arithmetic.\<close>

lemma flows_one_year: "flows_of [- 100, 110 :: real] one_year_dates = [(- 100, 0), (110, 365)]"
  by (simp add: flows_of_def argsort_def one_year_dates_def days_from_civil_def Let_def
      eval_nat_numeral)

lemma flows_same_day: "flows_of [- 100, 110 :: real] same_day_dates = [(- 100, 0), (110, 0)]"
  by (simp add: flows_of_def argsort_def same_day_dates_def days_from_civil_def Let_def
      eval_nat_numeral)







text \<open>Runs that end in the other ways.\<close>

lemma xirr_sample_out_of_bounds:
  "xirr_fl py_exact [- 100, 110] one_year_dates 5 100 (1 / 10 ^ 6) = Inl Rate_out_of_bounds"
proof -
  have "npv_fl py_exact [(- 100, 0), (110, 365)] 5 = Inr (- 100 + 110 / 6)"
    by (simp add: npv_fl_def npv_term_def and_then_def py_exact_def)
  moreover have "dnpv_fl py_exact [(- 100, 0), (110, 365)] 5 = Inr (- 110 / 36)"
    by (simp add: dnpv_fl_def dnpv_term_def and_then_def py_exact_def power2_eq_square)
  ultimately have "iteration py_exact (flows_of [- 100, 110] one_year_dates) (1 / 10 ^ 6) 5
      = Left_bounds"
    by (simp add: iteration_def flows_one_year magnitude_lt_def newton_update_def
        outside_bounds_def and_then_def py_exact_def)
  then show ?thesis
    by (simp add: xirr_fl_def one_year_dates_def eval_nat_numeral)
qed

lemma xirr_sample_flat:
  "xirr_fl py_exact [- 100, 110] same_day_dates 0.1 100 (1 / 10 ^ 6) = Inl Derivative_too_small"
proof -
  have "npv_fl py_exact [(- 100, 0), (110, 0)] 0.1 = Inr 10"
    by (simp add: npv_fl_def npv_term_def and_then_def py_exact_def)
  moreover have "dnpv_fl py_exact [(- 100, 0), (110, 0)] 0.1 = Inr 0"
    by (simp add: dnpv_fl_def dnpv_term_def and_then_def py_exact_def power2_eq_square)
  ultimately have "iteration py_exact (flows_of [- 100, 110] same_day_dates) (1 / 10 ^ 6) 0.1
      = Flat_derivative"
    by (simp add: iteration_def flows_same_day magnitude_lt_def and_then_def py_exact_def)
  then show ?thesis
    by (simp add: xirr_fl_def same_day_dates_def eval_nat_numeral)
qed

lemma xirr_sample_exhausted:
  "xirr_fl py_exact [- 100, 110] one_year_dates 5 0 (1 / 10 ^ 6) = Inl (Did_not_converge 0)"
  by (simp add: xirr_fl_def one_year_dates_def)

text \<open>From a guess above \<open>-1\<close> no operation of the exact arithmetic raises, and the
  solver in exact arithmetic is the instance of \<open>xirr_fl\<close> at \<open>py_exact\<close>.\<close>

lemma py_sum_exact:
  "(\<And>x. x \<in> set xs \<Longrightarrow> f x = Inr (g x)) \<Longrightarrow>
   py_sum py_exact f acc xs = Inr (acc + sum_list (map g xs))"
proof (induction xs arbitrary: acc)
  case Nil
  then show ?case by simp
next
  case (Cons x xs)
  have "f x = Inr (g x)" using Cons.prems by simp
  moreover have "py_sum py_exact f (acc + g x) xs = Inr (acc + g x + sum_list (map g xs))"
    using Cons.IH Cons.prems by simp
  ultimately show ?case
    by (simp add: and_then_def py_exact_def add.assoc)
qed

lemma npv_term_exact:
  assumes "- 1 < rate"
  shows "npv_term py_exact rate flow =
           Inr (case flow of (cf, day) \<Rightarrow> cf / (1 + rate) powr (real_of_int day / 365))"
  using assms by (cases flow) (simp add: npv_term_def and_then_def py_exact_def)

lemma dnpv_term_exact:
  assumes "- 1 < rate"
  shows "dnpv_term py_exact rate flow =
           Inr (case flow of (cf, day) \<Rightarrow>
                  - cf * real_of_int day / 365 / (1 + rate) powr (real_of_int day / 365 + 1))"
  using assms by (cases flow) (simp add: dnpv_term_def and_then_def py_exact_def)

lemma py_num_exact: "py_num py_exact i = real_of_int i"
  by (simp add: py_exact_def)

lemma npv_exact:
  assumes "- 1 < rate"
  shows "npv_fl py_exact flows rate = Inr (npv flows rate)"
proof -
  have "py_sum py_exact (npv_term py_exact rate) (py_num py_exact 0) flows =
          Inr (py_num py_exact 0
               + sum_list (map (\<lambda>(cf, day). cf / (1 + rate) powr (real_of_int day / 365)) flows))"
    by (rule py_sum_exact) (rule npv_term_exact [OF assms])
  then show ?thesis by (simp add: npv_fl_def npv_def py_num_exact)
qed

lemma dnpv_exact:
  assumes "- 1 < rate"
  shows "dnpv_fl py_exact flows rate = Inr (dnpv flows rate)"
proof -
  have "py_sum py_exact (dnpv_term py_exact rate) (py_num py_exact 0) flows =
          Inr (py_num py_exact 0
               + sum_list (map (\<lambda>(cf, day).
                   - cf * real_of_int day / 365 / (1 + rate) powr (real_of_int day / 365 + 1))
                   flows))"
    by (rule py_sum_exact) (rule dnpv_term_exact [OF assms])
  then show ?thesis by (simp add: dnpv_fl_def dnpv_def py_num_exact)
qed

lemma iteration_exact:
  assumes "- 1 < rate"
  shows "iteration py_exact flows tolerance rate =
     (if \<bar>npv flows rate\<bar> < tolerance then Converged (round_py rate 6)
      else if \<bar>dnpv flows rate\<bar> < 1 / 10 ^ 10 then Flat_derivative
      else if rate - npv flows rate / dnpv flows rate < - 0.99
              \<or> rate - npv flows rate / dnpv flows rate > 10 then Left_bounds
      else Continue (rate - npv flows rate / dnpv flows rate))"
proof -
  have z: "dnpv flows rate \<noteq> 0" if "\<not> \<bar>dnpv flows rate\<bar> < 1 / 10 ^ 10"
    using that by auto
  show ?thesis
    unfolding iteration_def npv_exact [OF assms] dnpv_exact [OF assms]
    using z
    by (simp add: magnitude_lt_def newton_update_def outside_bounds_def and_then_def
        py_exact_def)
qed

lemma newton_exact:
  "- 1 < rate \<Longrightarrow>
   newton_fl py_exact flows tolerance m n rate = newton flows tolerance m n rate"
proof (induction n arbitrary: rate)
  case 0
  then show ?case by simp
next
  case (Suc n)
  have pos: "\<not> 1 + rate = 0" "\<not> 1 + rate < 0" using Suc.prems by auto
  show ?case
  proof (cases "iteration py_exact flows tolerance rate")
    case (Continue rate')
    have r: "rate' = rate - npv flows rate / dnpv flows rate"
      and c: "\<not> \<bar>npv flows rate\<bar> < tolerance" "\<not> \<bar>dnpv flows rate\<bar> < 1 / 10 ^ 10"
        "\<not> (rate' < - 0.99 \<or> rate' > 10)"
      using Continue by (auto simp: iteration_exact [OF Suc.prems] split: if_splits)
    from c(3) have "- 1 < rate'" by simp
    from Suc.IH [OF this] have
      "newton_fl py_exact flows tolerance m n rate' = newton flows tolerance m n rate'" .
    moreover have "newton_fl py_exact flows tolerance m (Suc n) rate =
        newton_fl py_exact flows tolerance m n rate'"
      using Continue by simp
    moreover have "newton flows tolerance m (Suc n) rate = newton flows tolerance m n rate'"
      using pos c r by (simp add: Let_def)
    ultimately show ?thesis by simp
  qed (use pos in \<open>auto simp: iteration_exact [OF Suc.prems] Let_def split: if_splits\<close>)
qed

lemma xirr_exact:
  "- 1 < guess \<Longrightarrow>
   xirr_fl py_exact cashflows dates guess max_iterations tolerance =
     xirr cashflows dates guess max_iterations tolerance"
  by (simp add: xirr_fl_def xirr_def flows_of_def Let_def newton_exact)

text \<open>
  Claim C7. \<open>xirr\<close> fails with \<open>InvalidInput\<close> if and only if it is given fewer than 2
  cash flows or amount and date lists of different lengths. Both checks precede the
  solver: when one of them fires, the result is fixed whatever the guess, the
  iteration cap and the tolerance are.
\<close>

theorem xirr_invalid_input:
  "((\<exists>e. xirr cashflows dates guess max_iterations tolerance = Inl e
          \<and> failure_kind e = InvalidInput)
      \<longleftrightarrow> length cashflows < 2 \<or> length cashflows \<noteq> length dates)
   \<and> (length cashflows \<noteq> length dates \<longrightarrow>
        xirr cashflows dates guess max_iterations tolerance = Inl Length_mismatch)
   \<and> (length cashflows = length dates \<and> length cashflows < 2 \<longrightarrow>
        xirr cashflows dates guess max_iterations tolerance = Inl Too_few_cashflows)"
proof -
  have "failure_kind e \<noteq> InvalidInput"
    if "length cashflows = length dates" "2 \<le> length cashflows"
       "xirr cashflows dates guess max_iterations tolerance = Inl e" for e
    using that newton_not_invalid by (simp add: xirr_newton)
  moreover have "length cashflows \<noteq> length dates \<Longrightarrow>
      xirr cashflows dates guess max_iterations tolerance = Inl Length_mismatch"
    by (simp add: xirr_def)
  moreover have "length cashflows = length dates \<Longrightarrow> length cashflows < 2 \<Longrightarrow>
      xirr cashflows dates guess max_iterations tolerance = Inl Too_few_cashflows"
    by (simp add: xirr_def)
  ultimately show ?thesis
    by (metis failure_kind.simps(3,4) not_less)
qed

theorem xirr_invalid_input_witness:
  "length [100 :: real] = length [days_from_civil 2021 1 1] \<and> length [100 :: real] < 2
   \<and> xirr [100] [days_from_civil 2021 1 1] 0.1 100 (1 / 10 ^ 6) = Inl Too_few_cashflows
   \<and> failure_kind Too_few_cashflows = InvalidInput
   \<and> length [- 100, 110 :: real] \<noteq> length [days_from_civil 2021 1 1]
   \<and> xirr [- 100, 110] [days_from_civil 2021 1 1] 0.1 100 (1 / 10 ^ 6) = Inl Length_mismatch
   \<and> failure_kind Length_mismatch = InvalidInput"
  using xirr_invalid_input [of "[100]" "[days_from_civil 2021 1 1]" "0.1" 100 "1 / 10 ^ 6"]
    xirr_invalid_input [of "[- 100, 110]" "[days_from_civil 2021 1 1]" "0.1" 100 "1 / 10 ^ 6"]
  by simp

lemma sum_list_mset_cong:
  fixes f :: "'a \<Rightarrow> real"
  assumes "mset xs = mset ys"
  shows "sum_list (map f xs) = sum_list (map f ys)"
proof -
  have "sum_list (map f zs) = sum_mset (image_mset f (mset zs))" for zs
    by (simp only: mset_map [symmetric] sum_mset_sum_list)
  then show ?thesis by (simp only: assms)
qed




lemma sorted_hd_Min:
  fixes xs :: "int list"
  assumes "sorted xs" and "xs \<noteq> []"
  shows "hd xs = Min (set xs)"
proof (cases xs)
  case Nil
  with assms show ?thesis by simp
next
  case (Cons x ys)
  with assms have le: "\<forall>y\<in>set ys. x \<le> y" by simp
  have "Min (set (x # ys)) = x"
    by (rule Min_eqI) (use le in auto)
  with Cons show ?thesis by simp
qed









subsection \<open>calculate_trailing_cagr\<close>

text \<open>The loop leaves alone every key that no remaining period writes, and what it
  writes under a key depends on the period only; hence the entries of a result.\<close>

lemma trailing_loop_frame:
  "trailing_loop df column ps m0 = Inr m \<Longrightarrow> k \<notin> period_key ` set ps \<Longrightarrow> m k = m0 k"
proof (induction ps arbitrary: m0)
  case Nil
  then show ?case by simp
next
  case (Cons p ps)
  from Cons.prems(2) have k: "k \<noteq> period_key p" "k \<notin> period_key ` set ps" by auto
  from Cons.prems(1) obtain v where
    "trailing_loop df column ps (m0(period_key p \<mapsto> v)) = Inr m"
    by (auto simp: period_key_def Let_def split: if_splits sum.splits)
  from Cons.IH [OF this k(2)] k(1) show ?case by simp
qed

lemma trailing_loop_entries:
  "trailing_loop df column ps m0 = Inr m \<Longrightarrow>
   (\<forall>p\<in>set ps. p \<noteq> - 1 \<longrightarrow> rows df \<noteq> [] \<and>
      (if minus_years (fst (last (rows df))) p < fst (hd (rows df))
       then m (Y_CAGR p) = Some None
       else \<exists>v. cagr (loc_from df (minus_years (fst (last (rows df))) p)) column = Inr v
                \<and> m (Y_CAGR p) = Some (Some v)))
   \<and> (- 1 \<in> set ps \<longrightarrow> (\<exists>v. cagr df column = Inr v \<and> m Max_CAGR = Some (Some v)))"
proof (induction ps arbitrary: m0)
  case Nil
  then show ?case by simp
next
  case (Cons p ps)
  let ?start = "minus_years (fst (last (rows df))) p"
  let ?Q = "\<lambda>p m. rows df \<noteq> [] \<and>
      (if minus_years (fst (last (rows df))) p < fst (hd (rows df))
       then m (Y_CAGR p) = Some None
       else \<exists>v. cagr (loc_from df (minus_years (fst (last (rows df))) p)) column = Inr v
                \<and> m (Y_CAGR p) = Some (Some v))"
  let ?R = "\<lambda>m. \<exists>v. cagr df column = Inr v \<and> m Max_CAGR = Some (Some v)"
  from Cons.prems obtain val where
    rest: "trailing_loop df column ps (m0(period_key p \<mapsto> val)) = Inr m"
    and hd: "if p = - 1 then cagr df column = Inr (the val) \<and> val = Some (the val)
             else rows df \<noteq> [] \<and>
               (if ?start < fst (hd (rows df)) then val = None
                else cagr (loc_from df ?start) column = Inr (the val) \<and> val = Some (the val))"
    by (auto simp: period_key_def Let_def split: if_splits sum.splits)
  note IH = Cons.IH [OF rest]
  have here: "m (period_key p) = Some val" if "period_key p \<notin> period_key ` set ps"
    using trailing_loop_frame [OF rest that] by simp
  have inj: "period_key p \<in> period_key ` set ps \<longleftrightarrow> p \<in> set ps"
    by (auto simp: period_key_def split: if_splits)
  have 1: "?Q p m" if "p \<noteq> - 1"
  proof (cases "p \<in> set ps")
    case True
    with IH that show ?thesis by blast
  next
    case False
    with here inj have "m (Y_CAGR p) = Some val" using that by (simp add: period_key_def)
    with hd that show ?thesis by (auto split: if_splits)
  qed
  have 2: "?R m" if "p = - 1"
  proof (cases "p \<in> set ps")
    case True
    with IH that show ?thesis by blast
  next
    case False
    with here inj have "m Max_CAGR = Some val" using that by (simp add: period_key_def)
    with hd that show ?thesis by (metis)
  qed
  show ?case using IH 1 2 by auto
qed

lemma sorted_le_last:
  fixes xs :: "int list"
  shows "sorted xs \<Longrightarrow> y \<in> set xs \<Longrightarrow> y \<le> last xs"
proof (induction xs)
  case Nil
  then show ?case by simp
next
  case (Cons x ys)
  show ?case
  proof (cases "ys = []")
    case True
    with Cons.prems show ?thesis by simp
  next
    case False
    then have l: "last ys \<in> set ys" by simp
    from Cons.prems(1) have s: "sorted ys" and le: "\<forall>z\<in>set ys. x \<le> z" by simp_all
    from Cons.prems(2) consider "y = x" | "y \<in> set ys" by auto
    then show ?thesis
    proof cases
      case 1
      with le l False show ?thesis by simp
    next
      case 2
      with Cons.IH [OF s] False show ?thesis by simp
    qed
  qed
qed

lemma sorted_last_Max:
  fixes xs :: "int list"
  assumes "sorted xs" and "xs \<noteq> []"
  shows "last xs = Max (set xs)"
proof -
  have "Max (set xs) = last xs"
    by (rule Max_eqI) (use assms sorted_le_last in auto)
  then show ?thesis by simp
qed

lemma rows_sort_index: "rows (sort_index df) = sort_key fst (rows df)"
  by (simp add: sort_index_def)

lemma hd_sort_index:
  assumes "rows df \<noteq> []"
  shows "fst (hd (rows (sort_index df))) = first_date df"
proof -
  have ne: "map fst (sort_key fst (rows df)) \<noteq> []" using assms
    by (metis length_0_conv length_map length_sort)
  have "fst (hd (sort_key fst (rows df))) = hd (map fst (sort_key fst (rows df)))"
    using ne by (simp add: hd_map)
  also have "\<dots> = Min (set (map fst (sort_key fst (rows df))))"
    by (rule sorted_hd_Min [OF sorted_sort_key ne])
  finally show ?thesis by (simp add: first_date_def rows_sort_index)
qed

lemma last_sort_index:
  assumes "rows df \<noteq> []"
  shows "fst (last (rows (sort_index df))) = last_date df"
proof -
  have ne: "map fst (sort_key fst (rows df)) \<noteq> []" using assms
    by (metis length_0_conv length_map length_sort)
  have "fst (last (sort_key fst (rows df))) = last (map fst (sort_key fst (rows df)))"
    using ne by (simp add: last_map)
  also have "\<dots> = Max (set (map fst (sort_key fst (rows df))))"
    by (rule sorted_last_Max [OF sorted_sort_key ne])
  finally show ?thesis by (simp add: last_date_def rows_sort_index)
qed

lemma trailing_loop_window:
  assumes "trailing_loop df column ps m0 = Inr m" and "p \<in> set ps" and "p \<noteq> - 1"
  shows "rows df \<noteq> []"
    and "minus_years (fst (last (rows df))) p < fst (hd (rows df)) \<Longrightarrow> m (Y_CAGR p) = Some None"
    and "\<not> minus_years (fst (last (rows df))) p < fst (hd (rows df)) \<Longrightarrow>
         \<exists>v. cagr (loc_from df (minus_years (fst (last (rows df))) p)) column = Inr v
              \<and> m (Y_CAGR p) = Some (Some v)"
proof -
  from trailing_loop_entries [OF assms(1)] have
    "\<forall>p\<in>set ps. p \<noteq> - 1 \<longrightarrow> rows df \<noteq> [] \<and>
      (if minus_years (fst (last (rows df))) p < fst (hd (rows df))
       then m (Y_CAGR p) = Some None
       else \<exists>v. cagr (loc_from df (minus_years (fst (last (rows df))) p)) column = Inr v
                \<and> m (Y_CAGR p) = Some (Some v))"
    by (rule conjunct1)
  from this [rule_format, OF assms(2,3)] have
    a: "rows df \<noteq> []" and
    b: "if minus_years (fst (last (rows df))) p < fst (hd (rows df))
       then m (Y_CAGR p) = Some None
       else \<exists>v. cagr (loc_from df (minus_years (fst (last (rows df))) p)) column = Inr v
                \<and> m (Y_CAGR p) = Some (Some v)"
    by (rule conjunct1, rule conjunct2)
  show "rows df \<noteq> []" by (rule a)
  show "m (Y_CAGR p) = Some None"
    if "minus_years (fst (last (rows df))) p < fst (hd (rows df))"
    using b that by (simp only: if_True)
  show "\<exists>v. cagr (loc_from df (minus_years (fst (last (rows df))) p)) column = Inr v
              \<and> m (Y_CAGR p) = Some (Some v)"
    if "\<not> minus_years (fst (last (rows df))) p < fst (hd (rows df))"
    using b that by (simp only: if_False)
qed

lemma trailing_loop_max:
  assumes "trailing_loop df column ps m0 = Inr m" and "- 1 \<in> set ps"
  shows "\<exists>v. cagr df column = Inr v \<and> m Max_CAGR = Some (Some v)"
  using trailing_loop_entries [OF assms(1), THEN conjunct2, rule_format, OF assms(2)] .

text \<open>Calendar facts at the dates of the sample inputs.\<close>

lemma days_2020: "days_from_civil 2020 1 1 = 18262" "days_from_civil 2020 12 31 = 18627"
  "days_from_civil 2021 1 1 = 18628" "days_from_civil 2022 1 1 = 18993"
  by (simp_all add: days_from_civil_def)

lemma minus_year_18627: "minus_years 18627 1 = 18261"
  by code_simp

lemma minus_year_18993: "minus_years 18993 1 = 18628"
  by code_simp

text \<open>
  Claim C6, amended to the calls that return. Whenever \<open>calculate_trailing_cagr\<close> returns
  a result: for every requested positive window \<open>w\<close> the entry is \<^verbatim>\<open>None\<close> (absent) if and
  only if the target start date, the last date of the series minus \<open>w\<close> years, precedes
  the first date of the series; and if the window \<open>-1\<close> was requested, the entry under
  \<^verbatim>\<open>Max_CAGR\<close> is the growth rate of the entire series, sorted by date.
\<close>

theorem trailing_windows:
  assumes "calculate_trailing_cagr df column (Some periods) = Inr m"
  shows "(\<forall>w\<in>set periods. 0 < w \<longrightarrow>
            (m (Y_CAGR w) = Some None \<longleftrightarrow> minus_years (last_date df) w < first_date df))
       \<and> (- 1 \<in> set periods \<longrightarrow>
            (\<exists>v. cagr (sort_index df) column = Inr v \<and> m Max_CAGR = Some (Some v)))"
proof -
  from assms have loop: "trailing_loop (sort_index df) column periods Map.empty = Inr m"
    by (simp add: calculate_trailing_cagr_def split: if_splits)
  have "m (Y_CAGR w) = Some None \<longleftrightarrow> minus_years (last_date df) w < first_date df"
    if "w \<in> set periods" "0 < w" for w
  proof -
    from that have w: "w \<noteq> - 1" by simp
    note t = trailing_loop_window [OF loop that(1) w]
    from t(1) have ne: "rows df \<noteq> []" by (auto simp: rows_sort_index)
    note t2 = t(2) [unfolded hd_sort_index [OF ne] last_sort_index [OF ne]]
    note t3 = t(3) [unfolded hd_sort_index [OF ne] last_sort_index [OF ne]]
    show ?thesis
    proof (cases "minus_years (last_date df) w < first_date df")
      case True
      with t2 show ?thesis by simp
    next
      case False
      from t3 [OF False] obtain v where "m (Y_CAGR w) = Some (Some v)" by blast
      with False show ?thesis by simp
    qed
  qed
  moreover have "\<exists>v. cagr (sort_index df) column = Inr v \<and> m Max_CAGR = Some (Some v)"
    if "- 1 \<in> set periods"
    by (rule trailing_loop_max [OF loop that])
  ultimately show ?thesis by blast
qed

theorem trailing_windows_witness:
  "calculate_trailing_cagr nav_2020 ''nav'' (Some [1, - 1])
     = Inr (Map.empty(Y_CAGR 1 \<mapsto> None, Max_CAGR \<mapsto> Some 0.21))
   \<and> minus_years (last_date nav_2020) 1 < first_date nav_2020
   \<and> cagr (sort_index nav_2020) ''nav'' = Inr 0.21"
proof -
  let ?m = "Map.empty(Y_CAGR 1 \<mapsto> None, Max_CAGR \<mapsto> Some (0.21 :: real))"
  have run: "calculate_trailing_cagr nav_2020 ''nav'' (Some [1, - 1]) = Inr ?m"
    by (simp add: calculate_trailing_cagr_def sort_index_def nav_2020_def nav_frame_def
        cagr_def loc_from_def Let_def days_2020 minus_year_18627 round_py_def rint_def)
  note t = trailing_windows [OF run]
  from t have "?m (Y_CAGR 1) = Some None \<longleftrightarrow>
      minus_years (last_date nav_2020) 1 < first_date nav_2020"
    by simp
  then have 1: "minus_years (last_date nav_2020) 1 < first_date nav_2020" by simp
  from t obtain v where "cagr (sort_index nav_2020) ''nav'' = Inr v"
    "?m Max_CAGR = Some (Some v)" by auto
  then have 2: "cagr (sort_index nav_2020) ''nav'' = Inr 0.21" by simp
  from run 1 2 show ?thesis by blast
qed

text \<open>Claim C6 as stated fails on a series of a single point: the window \<open>-1\<close> does not
  succeed there, the growth rate of the entire series being undefined (no time has
  elapsed), and the call raises.\<close>

theorem trailing_windows_counterexample:
  "calculate_trailing_cagr nav_single ''nav'' (Some [- 1]) = Inl Invalid_data_for_CAGR"
  by (simp add: calculate_trailing_cagr_def sort_index_def nav_single_def nav_frame_def
      cagr_def Let_def)

text \<open>
  Claim C4, amended to the calls that return. Whenever
  \<open>calculate_trailing_cagr\<close> with the windows \<open>[1, -1]\<close> returns a result, its entry under
  \<^verbatim>\<open>Max_CAGR\<close> is \<open>cagr\<close> of the series sorted by date, hence \<open>cagr\<close> of the series itself
  when it is given in ascending order of date.
\<close>

theorem trailing_max:
  assumes "calculate_trailing_cagr df column (Some [1, - 1]) = Inr m"
  shows "(\<exists>v. cagr (sort_index df) column = Inr v \<and> m Max_CAGR = Some (Some v))
       \<and> (sorted (map fst (rows df)) \<longrightarrow>
            (\<exists>v. cagr df column = Inr v \<and> m Max_CAGR = Some (Some v)))"
proof -
  from assms have loop: "trailing_loop (sort_index df) column [1, - 1] Map.empty = Inr m"
    by (simp add: calculate_trailing_cagr_def split: if_splits)
  have 1: "\<exists>v. cagr (sort_index df) column = Inr v \<and> m Max_CAGR = Some (Some v)"
    by (rule trailing_loop_max [OF loop]) simp
  have "sort_index df = df" if "sorted (map fst (rows df))"
    using that by (simp add: sort_index_def sort_key_id_if_sorted)
  with 1 show ?thesis by auto
qed

theorem trailing_max_witness:
  "calculate_trailing_cagr nav_three ''nav'' (Some [1, - 1])
     = Inr (Map.empty(Y_CAGR 1 \<mapsto> Some (- 0.091), Max_CAGR \<mapsto> Some 0))
   \<and> sorted (map fst (rows nav_three))
   \<and> cagr nav_three ''nav'' = Inr 0"
proof -
  let ?m = "Map.empty(Y_CAGR 1 \<mapsto> Some (- 0.091 :: real), Max_CAGR \<mapsto> Some 0)"
  have run: "calculate_trailing_cagr nav_three ''nav'' (Some [1, - 1]) = Inr ?m"
    by (simp add: calculate_trailing_cagr_def sort_index_def nav_three_def nav_frame_def
        cagr_def loc_from_def Let_def days_2020 minus_year_18993 round_py_def rint_def)
  have s: "sorted (map fst (rows nav_three))"
    by (simp add: nav_three_def nav_frame_def days_2020)
  from trailing_max [OF run] s obtain v where "cagr nav_three ''nav'' = Inr v"
    "?m Max_CAGR = Some (Some v)" by blast
  then have "cagr nav_three ''nav'' = Inr 0" by simp
  with run s show ?thesis by blast
qed

text \<open>Claim C4 as stated fails on a series given in descending order of date: the
  aggregator sorts it and reports the growth rate of the sorted series, while \<open>cagr\<close>,
  which by its documentation does not sort, sees an inverted span and raises.\<close>

theorem trailing_max_counterexample:
  "calculate_trailing_cagr nav_unsorted ''nav'' (Some [1, - 1])
     = Inr (Map.empty(Y_CAGR 1 \<mapsto> None, Max_CAGR \<mapsto> Some 0.21))
   \<and> cagr nav_unsorted ''nav'' = Inl Invalid_data_for_CAGR"
  by (simp add: calculate_trailing_cagr_def sort_index_def nav_unsorted_def nav_frame_def
      cagr_def loc_from_def Let_def days_2020 minus_year_18627 round_py_def rint_def)

text \<open>The call can also raise where \<open>cagr\<close> of the series is defined. On two points two
  years apart the slice of the 1-year window holds the last point only, its growth rate
  raises, and so does the call, before the window \<open>-1\<close> is reached.\<close>

lemma trailing_sparse_raises:
  "calculate_trailing_cagr nav_sparse ''nav'' (Some [1, - 1]) = Inl Invalid_data_for_CAGR
   \<and> cagr nav_sparse ''nav'' = Inr (round_py ((121 / 100) powr (365 / 731) - 1) 3)"
  by (simp add: calculate_trailing_cagr_def sort_index_def nav_sparse_def nav_frame_def
      cagr_def loc_from_def Let_def days_2020 minus_year_18993)

subsection \<open>calculate_rolling_returns\<close>

lemma asof_backward_Some:
  "asof backward right k = Some v \<Longrightarrow> \<exists>x\<in>set right. fst x \<le> k"
proof -
  assume "asof backward right k = Some v"
  then have "filter (\<lambda>r. fst r \<le> k) right \<noteq> []"
    by (auto simp: asof_def split: list.splits)
  then obtain x where "x \<in> set (filter (\<lambda>r. fst r \<le> k) right)"
    by (meson hd_in_set)
  then show ?thesis by auto
qed

lemma loc_row_mem: "loc_row rs l = Inr r \<Longrightarrow> r \<in> set rs"
proof -
  assume "loc_row rs l = Inr r"
  then have "filter (\<lambda>r. row_date r = l) rs = [r]"
    by (auto simp: loc_row_def split: list.splits)
  then have "r \<in> set (filter (\<lambda>r. row_date r = l) rs)" by simp
  then show ?thesis by simp
qed

lemma rolling_rows_mem:
  assumes "r \<in> set (rolling_rows merged)"
  shows "\<exists>cur v. (past_date r, (row_date r, cur), Some v) \<in> set merged"
  using assms by (auto simp: rolling_rows_def split: option.splits) blast

lemma merged_mem:
  assumes "merge_asof dir left right = Inr merged" and "(k, a, past) \<in> set merged"
  shows "(k, a) \<in> set left \<and> past = asof dir right k"
  using assms by (auto simp: merge_asof_def split: if_splits)

text \<open>
  Claim C5. Whenever \<open>calculate_rolling_returns\<close> succeeds, the past date of the
  reported \<^verbatim>\<open>max_return_period\<close> pair is at most the current date of the pair minus the
  period (it is that offset date, for which a NAV at or before it was found), and it is
  not earlier than the first date of the series.
\<close>

theorem rolling_max_period:
  assumes "calculate_rolling_returns df column minus_period = Inr m"
  shows "fst (max_return_period m) \<le> minus_period (snd (max_return_period m))
       \<and> first_date df \<le> fst (max_return_period m)"
proof -
  let ?left = "map (\<lambda>r. (minus_period (fst r), (fst r, snd r column))) (rows df)"
  let ?right = "map (\<lambda>r. (fst r, snd r ''nav'')) (rows df)"
  from assms obtain merged max_row where
    mg: "merge_asof backward ?left ?right = Inr merged"
    and row: "max_row \<in> set (rolling_rows merged)"
    and per: "max_return_period m = (past_date max_row, row_date max_row)"
    by (auto simp: calculate_rolling_returns_def Let_def
        split: if_splits sum.splits dest: loc_row_mem)
  from rolling_rows_mem [OF row] obtain cur v where
    "(past_date max_row, (row_date max_row, cur), Some v) \<in> set merged" by blast
  from merged_mem [OF mg this] have
    l: "(past_date max_row, (row_date max_row, cur)) \<in> set ?left"
    and a: "asof backward ?right (past_date max_row) = Some v" by simp_all
  from l have 1: "past_date max_row = minus_period (row_date max_row)" by auto
  from asof_backward_Some [OF a] obtain x where
    x: "x \<in> set (rows df)" "fst x \<le> past_date max_row" by auto
  from x(1) have "first_date df \<le> fst x"
    by (simp add: first_date_def)
  with x(2) have 2: "first_date df \<le> past_date max_row" by simp
  from 1 2 per show ?thesis by simp
qed

lemma days_rolling: "days_from_civil 2020 1 1 = 18262"
  "days_from_civil 2021 1 1 = 18628" "days_from_civil 2022 1 1 = 18993"
  by (simp_all add: days_from_civil_def)

lemma minus_year_rolling: "minus_years 18262 1 = 17897" "minus_years 18628 1 = 18262"
  "minus_years 18993 1 = 18628"
  by code_simp+

theorem rolling_max_period_witness:
  "calculate_rolling_returns nav_rolling ''nav'' (\<lambda>d. minus_years d 1)
     = Inr \<lparr>max_returns = 0.2,
            max_return_period = (days_from_civil 2021 1 1, days_from_civil 2022 1 1),
            min_returns = 0.1,
            min_return_period = (days_from_civil 2020 1 1, days_from_civil 2021 1 1),
            avg_return = 0.15\<rparr>
   \<and> days_from_civil 2021 1 1 \<le> minus_years (days_from_civil 2022 1 1) 1
   \<and> first_date nav_rolling \<le> days_from_civil 2021 1 1"
proof -
  have run: "calculate_rolling_returns nav_rolling ''nav'' (\<lambda>d. minus_years d 1)
     = Inr \<lparr>max_returns = 0.2,
            max_return_period = (days_from_civil 2021 1 1, days_from_civil 2022 1 1),
            min_returns = 0.1,
            min_return_period = (days_from_civil 2020 1 1, days_from_civil 2021 1 1),
            avg_return = 0.15\<rparr>"
    by (simp add: calculate_rolling_returns_def nav_rolling_def nav_frame_def merge_asof_def
        asof_def rolling_rows_def idxmax_def idxmin_def loc_row_def Let_def
        days_rolling minus_year_rolling round_py_def rint_def)
  from rolling_max_period [OF run] have
    "days_from_civil 2021 1 1 \<le> minus_years (days_from_civil 2022 1 1) 1
     \<and> first_date nav_rolling \<le> days_from_civil 2021 1 1"
    by simp
  with run show ?thesis by blast
qed

subsection \<open>calculate_sip_returns\<close>

text \<open>The merged frame and its two sums, in the terms of the specification.\<close>

lemma contributions_sorted_mset:
  "mset (contributions (sort_index sip)) = mset (contributions sip)"
  by (simp add: contributions_def rows_sort_index)

lemma sip_merged_eq:
  "sip_merged sip nav column =
     Inr (map (\<lambda>(k, a). (k, a,
            asof forward (map (\<lambda>r. (fst r, snd r column)) (rows (sort_index nav))) k))
          (contributions (sort_index sip)))"
  by (simp add: sip_merged_def merge_asof_def contributions_def rows_sort_index o_def
      sorted_sort_key)

lemma asof_forward_map:
  "asof forward (map (\<lambda>r. (fst r, snd r column)) xs) d =
     (case filter (\<lambda>r. d \<le> fst r) xs of [] \<Rightarrow> None | x # _ \<Rightarrow> Some (snd x column))"
  by (induction xs) (auto simp: asof_def)

lemma asof_forward_nav:
  "asof forward (map (\<lambda>r. (fst r, snd r column)) (rows (sort_index nav))) d =
     (if matched nav d then Some (forward_nav nav column d) else None)"
proof -
  have "matched nav d \<longleftrightarrow> filter (\<lambda>r. d \<le> fst r) (rows (sort_index nav)) \<noteq> []"
    by (auto simp: matched_def list_ex_iff rows_sort_index filter_empty_conv)
  then show ?thesis
    by (auto simp: asof_forward_map forward_nav_def split: list.splits)
qed

lemma sum_amount_merged:
  assumes "sip_merged sip nav column = Inr merged"
  shows "sum_amount merged = sip_invested sip"
proof -
  from assms have "sum_amount merged = sum_list (map snd (contributions (sort_index sip)))"
    by (auto simp: sip_merged_eq sum_amount_def o_def case_prod_unfold)
  also have "\<dots> = sum_list (map snd (contributions sip))"
    by (rule sum_list_mset_cong [OF contributions_sorted_mset])
  finally show ?thesis by (simp add: sip_invested_def all_amounts_def)
qed

lemma sum_list_filter_zero:
  fixes f :: "'a \<Rightarrow> real"
  shows "sum_list (map (\<lambda>x. if P x then f x else 0) xs) = sum_list (map f (filter P xs))"
  by (induction xs) simp_all

lemma sum_units_merged:
  assumes "sip_merged sip nav column = Inr merged"
  shows "sum_units merged = sum_list (matched_units sip nav column)"
proof -
  let ?f = "\<lambda>c. snd c / forward_nav nav column (fst c)"
  let ?P = "\<lambda>c. matched nav (fst c)"
  from assms have "sum_units merged =
      sum_list (map (\<lambda>c. if ?P c then ?f c else 0) (contributions (sort_index sip)))"
    by (auto simp: sip_merged_eq sum_units_def o_def case_prod_unfold asof_forward_nav
        intro!: arg_cong [where f = sum_list])
  also have "\<dots> = sum_list (map (\<lambda>c. if ?P c then ?f c else 0) (contributions sip))"
    by (rule sum_list_mset_cong [OF contributions_sorted_mset])
  also have "\<dots> = sum_list (map ?f (filter ?P (contributions sip)))"
    by (rule sum_list_filter_zero)
  finally show ?thesis by (simp add: matched_units_def)
qed

lemma round_py_0: "round_py 0 n = 0"
  by (simp add: round_py_def rint_def)

lemma sip_fields:
  assumes "calculate_sip_returns sip nav column = Inr r"
  obtains merged where "sip_merged sip nav column = Inr merged" and "rows nav \<noteq> []"
    and "total_invested r = round_py (sum_amount merged) 2"
    and "total_units r = round_py (sum_units merged) 4"
    and "annualized_return r =
           (if 1 < length (rows sip)
               \<and> 0 < real_of_int (fst (last (rows (sort_index nav)))
                                    - fst (hd (rows (sort_index sip)))) / 365.25
               \<and> 0 < sum_amount merged
            then round_py
                   (((sum_units merged * snd (last (rows (sort_index nav))) column
                        / sum_amount merged)
                      powr (1 / (real_of_int (fst (last (rows (sort_index nav)))
                                              - fst (hd (rows (sort_index sip)))) / 365.25))
                     - 1) * 100) 2
            else 0)"
proof -
  from assms obtain merged where m: "sip_merged sip nav column = Inr merged"
    by (auto simp: calculate_sip_returns_def split: if_splits sum.splits)
  from assms m have ne: "rows nav \<noteq> []"
    by (auto simp: calculate_sip_returns_def split: if_splits)
  from assms m ne have r: "r = \<lparr>total_invested = round_py (sum_amount merged) 2,
      current_value = round_py (sum_units merged * snd (last (rows (sort_index nav))) column) 2,
      absolute_returns = round_py (sum_units merged * snd (last (rows (sort_index nav))) column
                                   - sum_amount merged) 2,
      return_percentage = round_py (if sum_amount merged > 0
          then (sum_units merged * snd (last (rows (sort_index nav))) column - sum_amount merged)
               / sum_amount merged * 100 else 0) 2,
      annualized_return = round_py
        (if length (rows (sort_index sip)) > 1 then
           if real_of_int (fst (last (rows (sort_index nav))) - fst (hd (rows (sort_index sip))))
                / 365.25 > 0 \<and> sum_amount merged > 0
           then ((sum_units merged * snd (last (rows (sort_index nav))) column
                   / sum_amount merged)
                 powr (1 / (real_of_int (fst (last (rows (sort_index nav)))
                                         - fst (hd (rows (sort_index sip)))) / 365.25)) - 1) * 100
           else 0
         else 0) 2,
      total_units = round_py (sum_units merged) 4,
      current_nav = round_py (snd (last (rows (sort_index nav))) column) 2,
      investment_period_days =
        (if length (rows (sort_index sip)) > 0
         then fst (last (rows (sort_index nav))) - fst (hd (rows (sort_index sip))) else 0)\<rparr>"
    by (simp add: calculate_sip_returns_def Let_def split: if_splits)
  have len: "length (rows (sort_index sip)) = length (rows sip)"
    by (simp add: rows_sort_index)
  show thesis
    by (rule that [OF m ne]) (simp_all add: r round_py_0 len)
qed

lemma sip_defined:
  assumes "''amount'' \<in> set (columns sip)" and "column \<in> set (columns nav)"
    and "column \<notin> set (columns sip)" and "rows nav \<noteq> []"
  shows "\<not> isl (calculate_sip_returns sip nav column)"
  using assms by (simp add: calculate_sip_returns_def sip_merged_eq Let_def)

lemma days_2024: "days_from_civil 2024 1 1 = 19723" "days_from_civil 2024 2 1 = 19754"
  "days_from_civil 2024 3 1 = 19783" "days_from_civil 2024 4 1 = 19814"
  "days_from_civil 2025 1 1 = 20089" "days_from_civil 2023 6 15 = 19523"
  "days_from_civil 2024 6 14 = 19888"
  by (simp_all add: days_from_civil_def)

text \<open>
  Claim C2, amended. Whenever \<open>calculate_sip_returns\<close> returns, \<^verbatim>\<open>total_invested\<close> is the
  sum of the amounts of all contributions, matched to a NAV point or not, rounded to 2
  decimals; \<^verbatim>\<open>total_units\<close> is the sum, rounded to 4 decimals, of the units bought by the
  contributions that have a NAV point at or after their date, so that a contribution
  with no subsequent NAV point adds no units but still adds its amount.
\<close>

theorem sip_total_invested:
  assumes "calculate_sip_returns sip nav column = Inr r"
  shows "total_invested r = round_py (sum_list (all_amounts sip)) 2
       \<and> total_units r = round_py (sum_list (matched_units sip nav column)) 4"
proof -
  from assms obtain merged where m: "sip_merged sip nav column = Inr merged"
    and "total_invested r = round_py (sum_amount merged) 2"
    and "total_units r = round_py (sum_units merged) 4"
    by (rule sip_fields)
  then show ?thesis
    by (simp add: sum_amount_merged [OF m] sum_units_merged [OF m] sip_invested_def)
qed

theorem sip_total_invested_witness:
  "\<not> isl (calculate_sip_returns sip_monthly nav_monthly ''nav'')
   \<and> sum_list (all_amounts sip_monthly) = 15000
   \<and> total_invested (projr (calculate_sip_returns sip_monthly nav_monthly ''nav'')) = 15000
   \<and> total_units (projr (calculate_sip_returns sip_monthly nav_monthly ''nav''))
       = round_py (sum_list (matched_units sip_monthly nav_monthly ''nav'')) 4"
proof -
  let ?R = "calculate_sip_returns sip_monthly nav_monthly ''nav''"
  have d: "\<not> isl ?R"
    by (rule sip_defined) (simp_all add: sip_monthly_def nav_monthly_def amount_frame_def
        nav_frame_def)
  then obtain r where r: "?R = Inr r" by (cases ?R) auto
  have a: "sum_list (all_amounts sip_monthly) = 15000"
    by (simp add: all_amounts_def contributions_def sip_monthly_def amount_frame_def)
  have "round_py 15000 2 = 15000" by (simp add: round_py_def rint_def)
  with sip_total_invested [OF r] a have
    "total_invested r = 15000"
    "total_units r = round_py (sum_list (matched_units sip_monthly nav_monthly ''nav'')) 4"
    by simp_all
  with d a r show ?thesis by simp
qed

text \<open>Claim C2 as stated fails where a contribution of 500 falls after the last NAV point:
  the matched contributions sum to 1000 and \<^verbatim>\<open>total_invested\<close> is 1500.\<close>

theorem sip_total_invested_counterexample:
  "\<not> isl (calculate_sip_returns sip_two nav_jan_feb ''nav'')
   \<and> total_invested (projr (calculate_sip_returns sip_two nav_jan_feb ''nav'')) = 1500
   \<and> sum_list (matched_amounts sip_two nav_jan_feb) = 1000"
proof -
  let ?R = "calculate_sip_returns sip_two nav_jan_feb ''nav''"
  have d: "\<not> isl ?R"
    by (rule sip_defined) (simp_all add: sip_two_def nav_jan_feb_def amount_frame_def
        nav_frame_def)
  then obtain r where r: "?R = Inr r" by (cases ?R) auto
  from r obtain merged where m: "sip_merged sip_two nav_jan_feb ''nav'' = Inr merged"
    and t: "total_invested r = round_py (sum_amount merged) 2"
    by (rule sip_fields)
  have "sip_invested sip_two = 1500"
    by (simp add: sip_invested_def all_amounts_def contributions_def sip_two_def amount_frame_def)
  moreover have "round_py 1500 2 = 1500" by (simp add: round_py_def rint_def)
  ultimately have 1: "total_invested r = 1500"
    using t sum_amount_merged [OF m] by simp
  have 2: "sum_list (matched_amounts sip_two nav_jan_feb) = 1000"
    by (simp add: matched_amounts_def matched_def contributions_def sip_two_def nav_jan_feb_def
        amount_frame_def nav_frame_def days_2024)
  from d r 1 2 show ?thesis by simp
qed

text \<open>
  Claim C8, amended. Whenever \<open>calculate_sip_returns\<close> returns: if the plan has more than
  one contribution, the elapsed years (days from the first contribution date to the last
  NAV date, divided by 365.25) are positive and the invested total is positive, the
  annualized return is \<open>((current_value / total_invested) ^ (1 / years) - 1) * 100\<close>
  rounded to 2 decimals, over the unrounded value and total; in every other case it is 0.
\<close>

theorem sip_annualized:
  assumes "calculate_sip_returns sip nav column = Inr r"
  shows "annualized_return r =
           (if 1 < length (rows sip) \<and> 0 < sip_years sip nav \<and> 0 < sip_invested sip
            then round_py (((sip_value sip nav column / sip_invested sip)
                              powr (1 / sip_years sip nav) - 1) * 100) 2
            else 0)"
proof -
  from assms obtain merged where m: "sip_merged sip nav column = Inr merged"
    and ne: "rows nav \<noteq> []"
    and a: "annualized_return r =
           (if 1 < length (rows sip)
               \<and> 0 < real_of_int (fst (last (rows (sort_index nav)))
                                    - fst (hd (rows (sort_index sip)))) / 365.25
               \<and> 0 < sum_amount merged
            then round_py
                   (((sum_units merged * snd (last (rows (sort_index nav))) column
                        / sum_amount merged)
                      powr (1 / (real_of_int (fst (last (rows (sort_index nav)))
                                              - fst (hd (rows (sort_index sip)))) / 365.25))
                     - 1) * 100) 2
            else 0)"
    by (rule sip_fields)
  show ?thesis
  proof (cases "1 < length (rows sip)")
    case False
    with a show ?thesis by simp
  next
    case True
    then have nes: "rows sip \<noteq> []" by auto
    have "real_of_int (fst (last (rows (sort_index nav))) - fst (hd (rows (sort_index sip))))
                 / 365.25 = sip_years sip nav"
      by (simp only: sip_years_def hd_sort_index [OF nes] last_sort_index [OF ne])
    with a show ?thesis
      by (simp only: sum_amount_merged [OF m] sum_units_merged [OF m] sip_value_def)
  qed
qed

theorem sip_annualized_witness:
  "\<not> isl (calculate_sip_returns sip_monthly nav_monthly ''nav'')
   \<and> 1 < length (rows sip_monthly) \<and> 0 < sip_years sip_monthly nav_monthly
   \<and> 0 < sip_invested sip_monthly
   \<and> annualized_return (projr (calculate_sip_returns sip_monthly nav_monthly ''nav''))
       = round_py (((sip_value sip_monthly nav_monthly ''nav'' / sip_invested sip_monthly)
                      powr (1 / sip_years sip_monthly nav_monthly) - 1) * 100) 2"
proof -
  let ?R = "calculate_sip_returns sip_monthly nav_monthly ''nav''"
  have d: "\<not> isl ?R"
    by (rule sip_defined) (simp_all add: sip_monthly_def nav_monthly_def amount_frame_def
        nav_frame_def)
  then obtain r where r: "?R = Inr r" by (cases ?R) auto
  have c: "1 < length (rows sip_monthly)" "0 < sip_years sip_monthly nav_monthly"
    "0 < sip_invested sip_monthly"
    by (simp_all add: sip_years_def sip_invested_def all_amounts_def contributions_def
        first_date_def last_date_def sip_monthly_def nav_monthly_def amount_frame_def
        nav_frame_def days_2024)
  from sip_annualized [OF r] c have
    "annualized_return r
       = round_py (((sip_value sip_monthly nav_monthly ''nav'' / sip_invested sip_monthly)
                      powr (1 / sip_years sip_monthly nav_monthly) - 1) * 100) 2"
    by simp
  with d c r show ?thesis by simp
qed

text \<open>Claim C8 as stated fails on a plan of one contribution: the annualized return is 0
  although the elapsed years and the invested total are positive.\<close>

theorem sip_annualized_counterexample:
  "\<not> isl (calculate_sip_returns sip_one nav_year ''nav'')
   \<and> annualized_return (projr (calculate_sip_returns sip_one nav_year ''nav'')) = 0
   \<and> 0 < sip_years sip_one nav_year \<and> 0 < sip_invested sip_one"
proof -
  let ?R = "calculate_sip_returns sip_one nav_year ''nav''"
  have d: "\<not> isl ?R"
    by (rule sip_defined) (simp_all add: sip_one_def nav_year_def amount_frame_def
        nav_frame_def)
  then obtain r where r: "?R = Inr r" by (cases ?R) auto
  from r obtain merged where
    "annualized_return r =
           (if 1 < length (rows sip_one)
               \<and> 0 < real_of_int (fst (last (rows (sort_index nav_year)))
                                    - fst (hd (rows (sort_index sip_one)))) / 365.25
               \<and> 0 < sum_amount merged
            then round_py
                   (((sum_units merged * snd (last (rows (sort_index nav_year))) ''nav''
                        / sum_amount merged)
                      powr (1 / (real_of_int (fst (last (rows (sort_index nav_year)))
                                              - fst (hd (rows (sort_index sip_one)))) / 365.25))
                     - 1) * 100) 2
            else 0)"
    by (rule sip_fields)
  moreover have "length (rows sip_one) = 1" by (simp add: sip_one_def amount_frame_def)
  ultimately have 1: "annualized_return r = 0" by simp
  have c: "0 < sip_years sip_one nav_year" "0 < sip_invested sip_one"
    by (simp_all add: sip_years_def sip_invested_def all_amounts_def contributions_def
        first_date_def last_date_def sip_one_def nav_year_def amount_frame_def
        nav_frame_def days_2024)
  from d r 1 c show ?thesis by simp
qed

text \<open>
  Claim C10. If the contribution series holds exactly one entry, the annualized return
  of every result is 0; the sample shows one with positive elapsed time and positive
  invested total.
\<close>

theorem sip_single_contribution:
  assumes "length (rows sip) = 1" and "calculate_sip_returns sip nav column = Inr r"
  shows "annualized_return r = 0"
proof -
  from assms(2) obtain merged where
    "annualized_return r =
           (if 1 < length (rows sip)
               \<and> 0 < real_of_int (fst (last (rows (sort_index nav)))
                                    - fst (hd (rows (sort_index sip)))) / 365.25
               \<and> 0 < sum_amount merged
            then round_py
                   (((sum_units merged * snd (last (rows (sort_index nav))) column
                        / sum_amount merged)
                      powr (1 / (real_of_int (fst (last (rows (sort_index nav)))
                                              - fst (hd (rows (sort_index sip)))) / 365.25))
                     - 1) * 100) 2
            else 0)"
    by (rule sip_fields)
  with assms(1) show ?thesis by simp
qed

theorem sip_single_contribution_witness:
  "length (rows sip_single) = 1
   \<and> \<not> isl (calculate_sip_returns sip_single nav_2023 ''nav'')
   \<and> annualized_return (projr (calculate_sip_returns sip_single nav_2023 ''nav'')) = 0
   \<and> 0 < sip_years sip_single nav_2023 \<and> 0 < sip_invested sip_single"
proof -
  let ?R = "calculate_sip_returns sip_single nav_2023 ''nav''"
  have l: "length (rows sip_single) = 1" by (simp add: sip_single_def amount_frame_def)
  have d: "\<not> isl ?R"
    by (rule sip_defined) (simp_all add: sip_single_def nav_2023_def amount_frame_def
        nav_frame_def)
  then obtain r where r: "?R = Inr r" by (cases ?R) auto
  have c: "0 < sip_years sip_single nav_2023" "0 < sip_invested sip_single"
    by (simp_all add: sip_years_def sip_invested_def all_amounts_def contributions_def
        first_date_def last_date_def sip_single_def nav_2023_def amount_frame_def
        nav_frame_def days_2024)
  from sip_single_contribution [OF l r] d l c r show ?thesis by simp
qed

end
